theory Spec2Isabelle
  imports Main
begin

section \<open>The stream result future of streaming/stream\_result\_future.hh\<close>

text \<open>
  The header holds the class \<open>stream_result_future\<close> in two layers. The constructor,
  \<open>init\<close>, \<open>init_receiving_side\<close>, \<open>create_and_register\<close> and \<open>add_event_listener\<close> are
  C++ that is compiled. The methods \<open>getCurrentState\<close>, \<open>handleSessionPrepared\<close>,
  \<open>handleSessionComplete\<close>, \<open>handleProgress\<close>, \<open>fireStreamEvent\<close> and \<open>maybeComplete\<close>
  are present only inside a disabled block (\<open>#if 0\<close>), in the Java they are being ported
  from. Each function is embedded from the definition the header gives for it: the
  compiled C++ where there is one, the text of the disabled block where it is the only
  definition.
\<close>

subsection \<open>Data model\<close>

text \<open>
  \<open>utils::UUID\<close>, \<open>gms::inet_address\<close> and \<open>sstring\<close> come from headers that are not part
  of the source; they are opaque identifiers here. A listener is held by pointer
  (\<open>stream_event_handler*\<close>), so it is represented by its address.
\<close>

type_synonym UUID = nat
type_synonym inet_address = nat
type_synonym sstring = string
type_synonym stream_event_handler = nat

text \<open>
  Modelled from the spec: the session state, which belongs to the session
  (not part of the source). The spec lists its six values.
\<close>

datatype session_state =
  Not_started | Preparing | Prepared | Streaming | Completed | Failed

text \<open>
  Modelled from the spec: \<open>SessionInfo\<close> (its class is not part of the source). The four
  totals are the ones \<open>handleSessionPrepared\<close> reads through \<open>getTotalFilesToReceive\<close>,
  \<open>getTotalSizeToReceive\<close>, \<open>getTotalFilesToSend\<close> and \<open>getTotalSizeToSend\<close>.
\<close>

record session_info =
  info_peer :: inet_address
  info_session_index :: int
  total_files_to_receive :: nat
  total_size_to_receive :: nat
  total_files_to_send :: nat
  total_size_to_send :: nat
  bytes_transferred :: nat
  state :: session_state

text \<open>Modelled from the spec: \<open>ProgressInfo\<close> (its class is not part of the source).\<close>

record progress_info =
  progress_peer :: inet_address
  progress_session_index :: int
  file_name :: string
  current_bytes :: nat
  total_bytes :: nat

text \<open>
  A session, as far as the methods of the header use it: \<open>planId()\<close>,
  \<open>sessionIndex()\<close>, \<open>peer\<close> and \<open>getSessionInfo()\<close>.
\<close>

record stream_session =
  planId :: UUID
  sessionIndex :: int
  peer :: inet_address
  getSessionInfo :: session_info

text \<open>
  The events, with the arguments the methods construct them from:
  \<open>new StreamEvent.SessionPreparedEvent(planId, sessionInfo)\<close>,
  \<open>new StreamEvent.SessionCompleteEvent(session)\<close> and
  \<open>new StreamEvent.ProgressEvent(planId, progress)\<close>.
\<close>

datatype stream_event =
  SessionPreparedEvent UUID session_info
| SessionCompleteEvent stream_session
| ProgressEvent UUID progress_info

text \<open>
  \<open>StreamState\<close>, built by \<open>getCurrentState\<close> as
  \<open>new StreamState(planId, description, coordinator.getAllSessionInfo())\<close>.
\<close>

record stream_state =
  state_plan_id :: UUID
  state_description :: sstring
  sessions :: "session_info list"

text \<open>\<open>new StreamException(finalState, "Stream failed")\<close>.\<close>

datatype stream_exception = StreamException stream_state string

text \<open>
  The cell of the future that \<open>set\<close> and \<open>setException\<close> write. They are inherited
  from the future base class of the Java original, which is not part of the source.
\<close>

datatype future_result =
  Pending
| Succeeded stream_state
| FailedWith stream_exception

text \<open>
  The coordinator is held by reference (\<open>stream_coordinator& _coordinator\<close>) and
  its class is not part of the source. The record holds what it answers at the
  moment: \<open>is_receiving()\<close>, \<open>has_active_sessions()\<close>, \<open>get_all_stream_sessions()\<close> and
  \<open>getAllSessionInfo()\<close>.
\<close>

record stream_coordinator =
  is_receiving :: bool
  has_active_sessions :: bool
  get_all_stream_sessions :: "stream_session list"
  getAllSessionInfo :: "session_info list"

text \<open>
  The object: the public fields \<open>plan_id\<close> and \<open>description\<close>, the private
  \<open>_coordinator\<close> and \<open>_event_listeners\<close>, and the result cell of the future.
\<close>

record stream_result_future =
  plan_id :: UUID
  description :: sstring
  coordinator :: stream_coordinator
  event_listeners :: "stream_event_handler list"
  result :: future_result

text \<open>
  Calls that leave the object, in the order they are made: a listener's
  \<open>handleStreamEvent\<close>, a session's \<open>init\<close> with the future it is handed, the
  coordinator's \<open>connect_all_stream_sessions\<close>, and the two log levels the methods
  write to (with the format string).
\<close>

datatype call =
  HandleStreamEvent stream_event_handler stream_event
| SessionInit stream_session stream_result_future
| ConnectAllStreamSessions
| LoggerInfo string
| LoggerWarn string

text \<open>
  The methods of the collaborators whose code is not part of the source are
  parameters: whether a listener's \<open>handleStreamEvent\<close> returns normally on an event
  (\<open>True\<close>) or throws (\<open>False\<close>), and the coordinator's \<open>addSessionInfo\<close> and
  \<open>updateProgress\<close>.
\<close>

record collaborators =
  handleStreamEvent :: "stream_event_handler \<Rightarrow> stream_event \<Rightarrow> bool"
  addSessionInfo :: "session_info \<Rightarrow> stream_coordinator \<Rightarrow> stream_coordinator"
  updateProgress :: "progress_info \<Rightarrow> stream_coordinator \<Rightarrow> stream_coordinator"

text \<open>An exception thrown by a listener, the only one the methods can meet.\<close>

datatype error = ListenerFailure stream_event_handler stream_event

text \<open>The object together with the calls made so far.\<close>

record world =
  this :: stream_result_future
  calls :: "call list"

subsection \<open>The compiled C++\<close>

text \<open>
  The constructor. The body of its \<open>if\<close> is empty: the call
  \<open>set(getCurrentState())\<close> is commented out, so both branches leave the
  new object as the member initialisers made it.
\<close>

definition new_stream_result_future ::
  "UUID \<Rightarrow> sstring \<Rightarrow> stream_coordinator \<Rightarrow> stream_result_future" where
  "new_stream_result_future plan_id' description' coordinator' =
     (let fut = \<lparr>plan_id = plan_id', description = description',
                 coordinator = coordinator', event_listeners = [], result = Pending\<rparr>
      in if \<not> is_receiving coordinator' \<and> \<not> has_active_sessions coordinator'
         then fut
         else fut)"

text \<open>\<open>create_and_register\<close>: \<open>make_shared\<close>; the registration is a FIXME comment.\<close>

definition create_and_register ::
  "UUID \<Rightarrow> sstring \<Rightarrow> stream_coordinator \<Rightarrow> stream_result_future" where
  "create_and_register plan_id' description' coordinator' =
     new_stream_result_future plan_id' description' coordinator'"

text \<open>\<open>add_event_listener\<close>: \<open>_event_listeners.push_back(listener)\<close>.\<close>

definition add_event_listener ::
  "stream_event_handler \<Rightarrow> stream_result_future \<Rightarrow> stream_result_future" where
  "add_event_listener listener fut =
     fut\<lparr>event_listeners := event_listeners fut @ [listener]\<rparr>"

text \<open>
  \<open>init\<close>: create the future, attach the listeners in order, call \<open>init\<close> on every
  session of \<open>get_all_stream_sessions()\<close> (evaluated once, as the range of the
  loop), then \<open>connect_all_stream_sessions()\<close>. The C++ returns nothing; the
  model returns the future and the calls made, so that both can be observed.
\<close>

definition init ::
  "UUID \<Rightarrow> sstring \<Rightarrow> stream_event_handler list \<Rightarrow> stream_coordinator \<Rightarrow> world" where
  "init plan_id' description' listeners' coordinator' =
     (let future0 = create_and_register plan_id' description' coordinator';
          future = foldl (\<lambda>f listener. add_event_listener listener f) future0 listeners';
          inits = map (\<lambda>session. SessionInit session future)
                    (get_all_stream_sessions coordinator')
      in \<lparr>this = future, calls = inits @ [ConnectAllStreamSessions]\<rparr>)"

text \<open>
  Modelled from the spec: the plan registry, a lookup by plan id. It is
  \<open>StreamManager.instance\<close> in the disabled blocks; its class is not part of the source,
  and the compiled code never reaches it.
\<close>

type_synonym stream_manager = "(UUID \<times> stream_result_future) list"

text \<open>
  \<open>init_receiving_side\<close>: the whole body is inside a disabled block, so the compiled
  function has an empty body and returns nothing (\<open>void\<close>). It reads none of its
  arguments and leaves the registry as it was.
\<close>

definition init_receiving_side ::
  "int \<Rightarrow> UUID \<Rightarrow> sstring \<Rightarrow> inet_address \<Rightarrow> bool \<Rightarrow> stream_manager \<Rightarrow> stream_manager" where
  "init_receiving_side session_index plan_id' description' from keep_ss_table_level manager =
     manager"

subsection \<open>The methods of the disabled block\<close>

text \<open>
  Modelled from the spec: \<open>set\<close> and \<open>setException\<close> of the future base class (not
  part of the source). Resolution writes the cell once; a write to a cell that is
  already resolved changes nothing.
\<close>

definition set_future :: "stream_state \<Rightarrow> stream_result_future \<Rightarrow> stream_result_future" where
  "set_future v fut =
     (case result fut of Pending \<Rightarrow> fut\<lparr>result := Succeeded v\<rparr> | _ \<Rightarrow> fut)"

definition setException ::
  "stream_exception \<Rightarrow> stream_result_future \<Rightarrow> stream_result_future" where
  "setException e fut =
     (case result fut of Pending \<Rightarrow> fut\<lparr>result := FailedWith e\<rparr> | _ \<Rightarrow> fut)"

text \<open>
  Modelled from the spec: \<open>hasFailedSession\<close> of \<open>StreamState\<close> (not part of the
  source), the predicate \<open>any_failed\<close>: true iff some contained SessionInfo is in
  state failed.
\<close>

definition hasFailedSession :: "stream_state \<Rightarrow> bool" where
  "hasFailedSession st = list_ex (\<lambda>info. state info = Failed) (sessions st)"

text \<open>\<open>getCurrentState\<close>.\<close>

definition getCurrentState :: "stream_result_future \<Rightarrow> stream_state" where
  "getCurrentState fut =
     \<lparr>state_plan_id = plan_id fut, state_description = description fut,
      sessions = getAllSessionInfo (coordinator fut)\<rparr>"

text \<open>
  The loop of \<open>fireStreamEvent\<close>: \<open>handleStreamEvent\<close> is called on the listeners in
  the order of the list. There is no \<open>try\<close> around the call, so a listener that
  throws ends the loop, and the exception leaves the method.
\<close>

fun deliver ::
  "collaborators \<Rightarrow> stream_event \<Rightarrow> stream_event_handler list \<Rightarrow> call list
     \<Rightarrow> (error + unit) \<times> call list" where
  "deliver E event [] cs = (Inr (), cs)"
| "deliver E event (listener # rest) cs =
     (if handleStreamEvent E listener event
      then deliver E event rest (cs @ [HandleStreamEvent listener event])
      else (Inl (ListenerFailure listener event), cs @ [HandleStreamEvent listener event]))"

definition fireStreamEvent ::
  "collaborators \<Rightarrow> stream_event \<Rightarrow> world \<Rightarrow> (error + unit) \<times> world" where
  "fireStreamEvent E event w =
     (case deliver E event (event_listeners (this w)) (calls w) of
        (r, cs) \<Rightarrow> (r, w\<lparr>calls := cs\<rparr>))"

text \<open>\<open>maybeComplete\<close>.\<close>

definition maybeComplete :: "world \<Rightarrow> world" where
  "maybeComplete w =
     (if \<not> has_active_sessions (coordinator (this w)) then
        (let finalState = getCurrentState (this w) in
         if hasFailedSession finalState then
           w\<lparr>calls := calls w @ [LoggerWarn ''[Stream #{}] Stream failed''],
             this := setException (StreamException finalState ''Stream failed'') (this w)\<rparr>
         else
           w\<lparr>calls := calls w @ [LoggerInfo ''[Stream #{}] All sessions completed''],
             this := set_future finalState (this w)\<rparr>)
      else w)"

text \<open>\<open>handleSessionPrepared\<close>.\<close>

definition handleSessionPrepared ::
  "collaborators \<Rightarrow> stream_session \<Rightarrow> world \<Rightarrow> (error + unit) \<times> world" where
  "handleSessionPrepared E session w =
     (let sessionInfo = getSessionInfo session;
          w1 = w\<lparr>calls := calls w @ [LoggerInfo
            ''[Stream #{} ID#{}] Prepare completed. Receiving {} files({} bytes), sending {} files({} bytes)'']\<rparr>;
          event = SessionPreparedEvent (plan_id (this w1)) sessionInfo;
          w2 = w1\<lparr>this := (this w1)\<lparr>coordinator :=
                 addSessionInfo E sessionInfo (coordinator (this w1))\<rparr>\<rparr>
      in fireStreamEvent E event w2)"

text \<open>\<open>handleSessionComplete\<close>.\<close>

definition handleSessionComplete ::
  "collaborators \<Rightarrow> stream_session \<Rightarrow> world \<Rightarrow> (error + unit) \<times> world" where
  "handleSessionComplete E session w =
     (let w1 = w\<lparr>calls := calls w @
                 [LoggerInfo ''[Stream #{}] Session with {} is complete'']\<rparr>
      in case fireStreamEvent E (SessionCompleteEvent session) w1 of
           (Inl ex, w2) \<Rightarrow> (Inl ex, w2)
         | (Inr u, w2) \<Rightarrow>
             (let sessionInfo = getSessionInfo session;
                  w3 = w2\<lparr>this := (this w2)\<lparr>coordinator :=
                         addSessionInfo E sessionInfo (coordinator (this w2))\<rparr>\<rparr>
              in (Inr (), maybeComplete w3)))"

text \<open>\<open>handleProgress\<close>.\<close>

definition handleProgress ::
  "collaborators \<Rightarrow> progress_info \<Rightarrow> world \<Rightarrow> (error + unit) \<times> world" where
  "handleProgress E progress w =
     (let w1 = w\<lparr>this := (this w)\<lparr>coordinator :=
                 updateProgress E progress (coordinator (this w))\<rparr>\<rparr>
      in fireStreamEvent E (ProgressEvent (plan_id (this w1)) progress) w1)"

subsection \<open>Sequences of operations on one object\<close>

text \<open>
  What can happen to an object after its construction: a listener is added, a
  session calls one of the three callbacks, the completion check runs, or the
  coordinator behind the reference changes by itself.
\<close>

datatype operation =
  AddEventListener stream_event_handler
| OnSessionPrepared stream_session
| OnSessionComplete stream_session
| OnProgress progress_info
| MaybeComplete
| CoordinatorChange "stream_coordinator \<Rightarrow> stream_coordinator"

fun apply_operation :: "collaborators \<Rightarrow> world \<Rightarrow> operation \<Rightarrow> world" where
  "apply_operation E w (AddEventListener listener) =
     w\<lparr>this := add_event_listener listener (this w)\<rparr>"
| "apply_operation E w (OnSessionPrepared session) = snd (handleSessionPrepared E session w)"
| "apply_operation E w (OnSessionComplete session) = snd (handleSessionComplete E session w)"
| "apply_operation E w (OnProgress progress) = snd (handleProgress E progress w)"
| "apply_operation E w MaybeComplete = maybeComplete w"
| "apply_operation E w (CoordinatorChange f) =
     w\<lparr>this := (this w)\<lparr>coordinator := f (coordinator (this w))\<rparr>\<rparr>"

definition run :: "collaborators \<Rightarrow> operation list \<Rightarrow> world \<Rightarrow> world" where
  "run E ops w = foldl (apply_operation E) w ops"

text \<open>
  The operations that run the completion check: \<open>handleSessionComplete\<close> calls
  \<open>maybeComplete\<close>, and the check itself.
\<close>

fun runs_completion_check :: "operation \<Rightarrow> bool" where
  "runs_completion_check (OnSessionComplete session) = True"
| "runs_completion_check MaybeComplete = True"
| "runs_completion_check _ = False"

subsection \<open>Concrete inputs\<close>

text \<open>
  Inputs on which the methods are evaluated below: collaborators whose listeners
  all return, and collaborators whose listener at address 1 throws (their
  \<open>addSessionInfo\<close> appends the record, their \<open>updateProgress\<close> changes nothing);
  two sessions of plan 7, one completed and one failed; a progress report of
  100 of 100 bytes; and coordinators with no session, with two active sessions,
  and with both sessions ended.
\<close>

definition listeners_return :: collaborators where
  "listeners_return =
     \<lparr>handleStreamEvent = (\<lambda>listener event. True),
      addSessionInfo = (\<lambda>info c. c\<lparr>getAllSessionInfo := getAllSessionInfo c @ [info]\<rparr>),
      updateProgress = (\<lambda>progress c. c)\<rparr>"

definition first_listener_throws :: collaborators where
  "first_listener_throws =
     \<lparr>handleStreamEvent = (\<lambda>listener event. listener \<noteq> 1),
      addSessionInfo = (\<lambda>info c. c\<lparr>getAllSessionInfo := getAllSessionInfo c @ [info]\<rparr>),
      updateProgress = (\<lambda>progress c. c)\<rparr>"

definition info_completed :: session_info where
  "info_completed =
     \<lparr>info_peer = 10, info_session_index = 0, total_files_to_receive = 0,
      total_size_to_receive = 0, total_files_to_send = 1, total_size_to_send = 100,
      bytes_transferred = 100, state = Completed\<rparr>"

definition info_failed :: session_info where
  "info_failed =
     \<lparr>info_peer = 11, info_session_index = 0, total_files_to_receive = 0,
      total_size_to_receive = 0, total_files_to_send = 1, total_size_to_send = 100,
      bytes_transferred = 40, state = Failed\<rparr>"

definition session_a :: stream_session where
  "session_a = \<lparr>planId = 7, sessionIndex = 0, peer = 10, getSessionInfo = info_completed\<rparr>"

definition session_b :: stream_session where
  "session_b = \<lparr>planId = 7, sessionIndex = 0, peer = 11, getSessionInfo = info_failed\<rparr>"

definition progress_full :: progress_info where
  "progress_full =
     \<lparr>progress_peer = 10, progress_session_index = 0, file_name = ''f'',
      current_bytes = 100, total_bytes = 100\<rparr>"

definition no_sessions :: stream_coordinator where
  "no_sessions =
     \<lparr>is_receiving = False, has_active_sessions = False,
      get_all_stream_sessions = [], getAllSessionInfo = []\<rparr>"

definition two_sessions :: stream_coordinator where
  "two_sessions =
     \<lparr>is_receiving = False, has_active_sessions = True,
      get_all_stream_sessions = [session_a, session_b], getAllSessionInfo = []\<rparr>"

definition all_done_one_failed :: stream_coordinator where
  "all_done_one_failed =
     \<lparr>is_receiving = False, has_active_sessions = False,
      get_all_stream_sessions = [session_a, session_b],
      getAllSessionInfo = [info_completed, info_failed]\<rparr>"

definition world_of :: "stream_result_future \<Rightarrow> world" where
  "world_of fut = \<lparr>this = fut, calls = []\<rparr>"

definition failed_plan :: world where
  "failed_plan = world_of (new_stream_result_future 7 ''repair'' all_done_one_failed)"

definition two_listeners :: world where
  "two_listeners =
     world_of (add_event_listener 2 (add_event_listener 1
       (new_stream_result_future 7 ''repair'' no_sessions)))"

text \<open>
  A plan on which listener 1 is registered twice.
  A change of the coordinator that empties its session records, the failed plan
  after its completion check has run, and a pending plan with one listener over
  a coordinator that reports no active session.
\<close>

definition registered_twice :: world where
  "registered_twice =
     world_of (add_event_listener 1 (add_event_listener 1
       (new_stream_result_future 7 ''repair'' no_sessions)))"

definition forget_session_info :: "stream_coordinator \<Rightarrow> stream_coordinator" where
  "forget_session_info c = c\<lparr>getAllSessionInfo := []\<rparr>"

definition resolved_plan :: world where
  "resolved_plan = maybeComplete failed_plan"

definition pending_plan :: world where
  "pending_plan = world_of (add_event_listener 1 (new_stream_result_future 7 ''repair'' no_sessions))"

section \<open>Properties\<close>

subsection \<open>Auxiliary facts\<close>

lemmas example_defs =
  listeners_return_def first_listener_throws_def info_completed_def info_failed_def
  session_a_def session_b_def progress_full_def no_sessions_def two_sessions_def
  all_done_one_failed_def world_of_def failed_plan_def two_listeners_def
  resolved_plan_def pending_plan_def registered_twice_def

lemmas method_defs =
  new_stream_result_future_def add_event_listener_def set_future_def setException_def
  hasFailedSession_def getCurrentState_def fireStreamEvent_def maybeComplete_def
  handleSessionPrepared_def handleSessionComplete_def handleProgress_def run_def

lemma deliver_calls:
  "snd (deliver E e ls cs) =
     cs @ map (\<lambda>l. HandleStreamEvent l e)
            (takeWhile (\<lambda>l. handleStreamEvent E l e) ls
             @ take 1 (dropWhile (\<lambda>l. handleStreamEvent E l e) ls))"
  by (induction ls arbitrary: cs) simp_all

lemma deliver_all_return:
  "\<forall>l\<in>set ls. handleStreamEvent E l e \<Longrightarrow>
     deliver E e ls cs = (Inr (), cs @ map (\<lambda>l. HandleStreamEvent l e) ls)"
  by (induction ls arbitrary: cs) simp_all

lemma deliver_first_throw:
  "\<forall>x\<in>set pre. handleStreamEvent E x e \<Longrightarrow> \<not> handleStreamEvent E l e \<Longrightarrow>
     deliver E e (pre @ l # post) cs =
       (Inl (ListenerFailure l e), cs @ map (\<lambda>l. HandleStreamEvent l e) (pre @ [l]))"
  by (induction pre arbitrary: cs) simp_all

lemma fireStreamEvent_this: "this (snd (fireStreamEvent E e w)) = this w"
  by (simp add: fireStreamEvent_def split: prod.splits)

lemma fireStreamEvent_calls:
  "calls (snd (fireStreamEvent E e w)) = snd (deliver E e (event_listeners (this w)) (calls w))"
  by (simp add: fireStreamEvent_def split: prod.splits)

lemma set_future_fields:
  "plan_id (set_future v fut) = plan_id fut"
  "description (set_future v fut) = description fut"
  "coordinator (set_future v fut) = coordinator fut"
  "event_listeners (set_future v fut) = event_listeners fut"
  by (simp_all add: set_future_def split: future_result.splits)

lemma setException_fields:
  "plan_id (setException x fut) = plan_id fut"
  "description (setException x fut) = description fut"
  "coordinator (setException x fut) = coordinator fut"
  "event_listeners (setException x fut) = event_listeners fut"
  by (simp_all add: setException_def split: future_result.splits)

lemma set_future_resolved: "result fut \<noteq> Pending \<Longrightarrow> set_future v fut = fut"
  by (simp add: set_future_def split: future_result.splits)

lemma setException_resolved: "result fut \<noteq> Pending \<Longrightarrow> setException x fut = fut"
  by (simp add: setException_def split: future_result.splits)

lemma maybeComplete_plan_id: "plan_id (this (maybeComplete w)) = plan_id (this w)"
  by (simp add: maybeComplete_def Let_def set_future_fields setException_fields)

lemma maybeComplete_resolved_this:
  "result (this w) \<noteq> Pending \<Longrightarrow> this (maybeComplete w) = this w"
  by (simp add: maybeComplete_def Let_def set_future_resolved setException_resolved)

lemma apply_operation_plan_id: "plan_id (this (apply_operation E w op)) = plan_id (this w)"
  by (cases op)
     (simp_all add: add_event_listener_def handleSessionPrepared_def handleSessionComplete_def
        handleProgress_def Let_def fireStreamEvent_this maybeComplete_plan_id
        fireStreamEvent_def split: prod.splits sum.splits)

lemma run_plan_id: "plan_id (this (run E ops w)) = plan_id (this w)"
  unfolding run_def by (induction ops arbitrary: w) (simp_all add: apply_operation_plan_id)

lemma apply_operation_resolved:
  "result (this w) \<noteq> Pending \<Longrightarrow> result (this (apply_operation E w op)) = result (this w)"
  by (cases op)
     (auto simp add: add_event_listener_def handleSessionPrepared_def handleSessionComplete_def
        handleProgress_def Let_def maybeComplete_resolved_this
        fireStreamEvent_def split: prod.splits sum.splits)

lemma run_resolved:
  "result (this w) \<noteq> Pending \<Longrightarrow> result (this (run E ops w)) = result (this w)"
  unfolding run_def
  by (induction ops arbitrary: w) (simp_all add: apply_operation_resolved)

lemma maybeComplete_calls:
  "calls (maybeComplete w) = calls w
   \<or> calls (maybeComplete w) = calls w @ [LoggerWarn ''[Stream #{}] Stream failed'']
   \<or> calls (maybeComplete w) = calls w @ [LoggerInfo ''[Stream #{}] All sessions completed'']"
  by (simp add: maybeComplete_def Let_def)

lemma maybeComplete_funpow_resolved:
  "result (this w) \<noteq> Pending \<Longrightarrow> this ((maybeComplete ^^ n) w) = this w"
  by (induction n) (simp_all add: maybeComplete_resolved_this)

lemma maybeComplete_funpow_calls:
  "\<exists>logs. calls ((maybeComplete ^^ n) w) = calls w @ logs
     \<and> set logs \<subseteq> {LoggerWarn ''[Stream #{}] Stream failed'',
                     LoggerInfo ''[Stream #{}] All sessions completed''}"
proof (induction n)
  case 0
  show ?case by simp
next
  case (Suc n)
  then obtain logs where l: "calls ((maybeComplete ^^ n) w) = calls w @ logs"
    and s: "set logs \<subseteq> {LoggerWarn ''[Stream #{}] Stream failed'',
                     LoggerInfo ''[Stream #{}] All sessions completed''}" by blast
  let ?v = "(maybeComplete ^^ n) w"
  from maybeComplete_calls [of ?v] show ?case
  proof (elim disjE)
    assume "calls (maybeComplete ?v) = calls ?v"
    with l s show ?thesis by auto
  next
    assume "calls (maybeComplete ?v) = calls ?v @ [LoggerWarn ''[Stream #{}] Stream failed'']"
    with l s show ?thesis by auto
  next
    assume "calls (maybeComplete ?v) = calls ?v @ [LoggerInfo ''[Stream #{}] All sessions completed'']"
    with l s show ?thesis by auto
  qed
qed

lemma apply_operation_no_check:
  "\<not> runs_completion_check op \<Longrightarrow> result (this (apply_operation E w op)) = result (this w)"
  by (cases op)
     (simp_all add: add_event_listener_def handleSessionPrepared_def handleProgress_def
        Let_def fireStreamEvent_this)

lemma run_no_check:
  "list_all (\<lambda>op. \<not> runs_completion_check op) ops \<Longrightarrow>
     result (this (run E ops w)) = result (this w)"
  unfolding run_def
  by (induction ops arbitrary: w) (simp_all add: apply_operation_no_check)

lemma foldl_add_event_listener:
  "foldl (\<lambda>f listener. add_event_listener listener f) fut ls =
     fut\<lparr>event_listeners := event_listeners fut @ ls\<rparr>"
  by (induction ls arbitrary: fut) (simp_all add: add_event_listener_def)

subsection \<open>The completion check\<close>

text \<open>
  Claim C1, as the method has it. When \<open>maybeComplete\<close> runs on an object whose
  result is still pending and the coordinator reports no active session, the
  result becomes the failure carrying the snapshot of \<open>getCurrentState\<close> and the
  message \<open>Stream failed\<close> if the snapshot has a failed session, and the success
  carrying the snapshot otherwise. The outcome is a success exactly when no
  session record of the snapshot is in state failed. The message is spelled
  with a capital S, not \<open>stream failed\<close>.
\<close>

theorem maybeComplete_resolves:
  "result (this w) = Pending \<Longrightarrow> \<not> has_active_sessions (coordinator (this w)) \<Longrightarrow>
     result (this (maybeComplete w)) =
       (if hasFailedSession (getCurrentState (this w))
        then FailedWith (StreamException (getCurrentState (this w)) ''Stream failed'')
        else Succeeded (getCurrentState (this w)))
     \<and> ((\<exists>snapshot. result (this (maybeComplete w)) = Succeeded snapshot) \<longleftrightarrow>
          (\<forall>info \<in> set (sessions (getCurrentState (this w))). state info \<noteq> Failed))"
  by (simp add: maybeComplete_def Let_def set_future_def setException_def
        hasFailedSession_def list_ex_iff)

theorem maybeComplete_resolves_witness:
  "result (this failed_plan) = Pending
   \<and> \<not> has_active_sessions (coordinator (this failed_plan))
   \<and> result (this (maybeComplete failed_plan)) =
       FailedWith (StreamException
         \<lparr>state_plan_id = 7, state_description = ''repair'',
          sessions = [info_completed, info_failed]\<rparr> ''Stream failed'')"
  using maybeComplete_resolves [of failed_plan]
  by (simp add: example_defs method_defs)

text \<open>
  C1 as it is worded fails on the message: with both sessions ended and
  one of them failed, the failure that \<open>maybeComplete\<close> stores does not carry the
  message \<open>stream failed\<close>.
\<close>

theorem maybeComplete_message_counterexample:
  "result (this failed_plan) = Pending
   \<and> \<not> has_active_sessions (coordinator (this failed_plan))
   \<and> hasFailedSession (getCurrentState (this failed_plan))
   \<and> result (this (maybeComplete failed_plan)) \<noteq>
       FailedWith (StreamException (getCurrentState (this failed_plan)) ''stream failed'')"
  by (simp add: example_defs method_defs)

text \<open>
  Claim C3. Once the result is resolved, running \<open>maybeComplete\<close> any number of
  times leaves the whole object as it is (the resolved value with it) and calls
  no listener: all it still does, when the coordinator reports no active
  session, is write the log line of the branch it takes. The resolved value also
  survives every sequence of operations, whatever the coordinator reports in
  between.
\<close>

theorem maybeComplete_idempotent:
  "result (this w) \<noteq> Pending \<Longrightarrow>
     this ((maybeComplete ^^ n) w) = this w
     \<and> (\<exists>logs. calls ((maybeComplete ^^ n) w) = calls w @ logs
          \<and> set logs \<subseteq> {LoggerWarn ''[Stream #{}] Stream failed'',
                          LoggerInfo ''[Stream #{}] All sessions completed''})
     \<and> result (this (run E ops w)) = result (this w)"
  using maybeComplete_funpow_resolved [of w n] maybeComplete_funpow_calls [of n w]
    run_resolved [of w E ops]
  by blast

theorem maybeComplete_idempotent_witness:
  "result (this resolved_plan) \<noteq> Pending
   \<and> this ((maybeComplete ^^ 3) resolved_plan) = this resolved_plan
   \<and> result (this (run listeners_return
        [CoordinatorChange forget_session_info, MaybeComplete,
         OnSessionComplete session_a] resolved_plan)) =
       FailedWith (StreamException
         \<lparr>state_plan_id = 7, state_description = ''repair'',
          sessions = [info_completed, info_failed]\<rparr> ''Stream failed'')"
proof -
  have r: "result (this resolved_plan) =
       FailedWith (StreamException
         \<lparr>state_plan_id = 7, state_description = ''repair'',
          sessions = [info_completed, info_failed]\<rparr> ''Stream failed'')"
    by (simp add: example_defs method_defs)
  then have h: "result (this resolved_plan) \<noteq> Pending" by simp
  from maybeComplete_idempotent [OF h, of 3 listeners_return
      "[CoordinatorChange forget_session_info, MaybeComplete,
         OnSessionComplete session_a]"] r h
  show ?thesis by simp
qed

subsection \<open>Construction\<close>

text \<open>
  Claim C2 says that the constructor resolves the result to success at once when
  the coordinator is neither receiving nor has active sessions. The comment in
  the constructor says the same, but the call that would do it is commented
  out: constructed over such a coordinator, the object is still pending.
\<close>

theorem constructor_leaves_pending:
  "\<not> is_receiving no_sessions \<and> \<not> has_active_sessions no_sessions
   \<and> result (new_stream_result_future 7 ''repair'' no_sessions) = Pending"
  by (simp add: example_defs method_defs)

subsection \<open>The receiving side\<close>

text \<open>
  Claim C8 says that \<open>init_receiving_side\<close> finds the future of the plan id in the
  registry or creates and registers one. The compiled function has an empty
  body: called for plan 7 on an empty registry, it leaves the registry without
  an entry for plan 7.
\<close>

theorem init_receiving_side_registers_nothing:
  "map_of (init_receiving_side 0 7 ''repair'' 10 False []) 7 = None"
  by (simp add: init_receiving_side_def)

subsection \<open>The plan id\<close>

text \<open>
  Claim C9. Whatever sequence of operations is performed on an object after its
  construction (adding listeners, the three callbacks, the completion check,
  changes of the coordinator), with whatever collaborators, its \<open>plan_id\<close> is the
  one the constructor was given.
\<close>

theorem plan_id_never_changes:
  "plan_id (this (run E ops
      (world_of (new_stream_result_future plan_id' description' coordinator')))) = plan_id'"
  by (simp add: run_plan_id world_of_def new_stream_result_future_def)

subsection \<open>Progress\<close>

text \<open>
  Claim C4. \<open>handleProgress\<close> changes nothing of the object but the coordinator
  (through \<open>updateProgress\<close>), so it leaves the result as it was, whatever the
  progress reports; the only calls it makes are deliveries of the progress event,
  none of them the completion check's. Over sequences: operations that are
  neither \<open>handleSessionComplete\<close> nor the completion check itself, in any
  number and order, leave the result as it was.
\<close>

theorem handleProgress_never_resolves:
  "this (snd (handleProgress E progress w)) =
     (this w)\<lparr>coordinator := updateProgress E progress (coordinator (this w))\<rparr>
   \<and> result (this (snd (handleProgress E progress w))) = result (this w)
   \<and> (\<exists>ls. calls (snd (handleProgress E progress w)) =
         calls w @ map (\<lambda>l. HandleStreamEvent l (ProgressEvent (plan_id (this w)) progress)) ls)
   \<and> (list_all (\<lambda>op. \<not> runs_completion_check op) ops \<longrightarrow>
        result (this (run E ops w)) = result (this w))"
proof -
  let ?ev = "ProgressEvent (plan_id (this w)) progress"
  let ?ok = "\<lambda>l. handleStreamEvent E l ?ev"
  have "calls (snd (handleProgress E progress w)) =
      calls w @ map (\<lambda>l. HandleStreamEvent l ?ev)
        (takeWhile ?ok (event_listeners (this w))
         @ take 1 (dropWhile ?ok (event_listeners (this w))))"
    by (simp add: handleProgress_def Let_def fireStreamEvent_calls deliver_calls)
  then have "\<exists>ls. calls (snd (handleProgress E progress w)) =
      calls w @ map (\<lambda>l. HandleStreamEvent l ?ev) ls"
    by (rule exI)
  then show ?thesis
    by (simp add: handleProgress_def Let_def fireStreamEvent_this run_no_check)
qed

theorem handleProgress_never_resolves_witness:
  "list_all (\<lambda>op. \<not> runs_completion_check op)
     [OnProgress progress_full, OnSessionPrepared session_a, AddEventListener 2,
      OnProgress progress_full]
   \<and> result (this (run listeners_return
        [OnProgress progress_full, OnSessionPrepared session_a, AddEventListener 2,
         OnProgress progress_full] pending_plan)) = Pending
   \<and> result (this (snd (handleProgress listeners_return progress_full pending_plan))) = Pending"
  using handleProgress_never_resolves [of listeners_return progress_full pending_plan
      "[OnProgress progress_full, OnSessionPrepared session_a, AddEventListener 2,
        OnProgress progress_full]"]
  by (simp add: example_defs new_stream_result_future_def add_event_listener_def)

text \<open>For contrast, \<open>handleSessionComplete\<close> on the same pending plan resolves it.\<close>

lemma handleSessionComplete_can_resolve:
  "result (this (snd (handleSessionComplete listeners_return session_a pending_plan))) =
     Succeeded \<lparr>state_plan_id = 7, state_description = ''repair'', sessions = [info_completed]\<rparr>"
  by (simp add: example_defs method_defs)

subsection \<open>The initialisation protocol\<close>

text \<open>
  Claim C5. \<open>init\<close> attaches all the listeners it is given, in their order; it
  then calls \<open>init\<close> on every session the coordinator enumerates, in the
  coordinator's order, handing each the future with all its listeners attached;
  and \<open>connect_all_stream_sessions\<close> is the last call, made once, after the
  \<open>init\<close> of every session.
\<close>

theorem init_protocol:
  "event_listeners (this (init plan_id' description' listeners' coordinator')) = listeners'
   \<and> plan_id (this (init plan_id' description' listeners' coordinator')) = plan_id'
   \<and> calls (init plan_id' description' listeners' coordinator') =
       map (\<lambda>session. SessionInit session
              (this (init plan_id' description' listeners' coordinator')))
         (get_all_stream_sessions coordinator')
       @ [ConnectAllStreamSessions]
   \<and> (\<forall>i < length (get_all_stream_sessions coordinator').
        calls (init plan_id' description' listeners' coordinator') ! i =
          SessionInit (get_all_stream_sessions coordinator' ! i)
            (this (init plan_id' description' listeners' coordinator')))
   \<and> calls (init plan_id' description' listeners' coordinator')
        ! length (get_all_stream_sessions coordinator') = ConnectAllStreamSessions
   \<and> length (calls (init plan_id' description' listeners' coordinator')) =
        Suc (length (get_all_stream_sessions coordinator'))"
  by (simp add: init_def Let_def create_and_register_def new_stream_result_future_def
        foldl_add_event_listener nth_append)

theorem init_protocol_witness:
  "event_listeners (this (init 7 ''repair'' [1, 2] two_sessions)) = [1, 2]
   \<and> calls (init 7 ''repair'' [1, 2] two_sessions) =
       [SessionInit session_a (this (init 7 ''repair'' [1, 2] two_sessions)),
        SessionInit session_b (this (init 7 ''repair'' [1, 2] two_sessions)),
        ConnectAllStreamSessions]
   \<and> calls (init 7 ''repair'' [1, 2] two_sessions) ! 1 =
        SessionInit session_b (this (init 7 ''repair'' [1, 2] two_sessions))"
proof -
  have s: "get_all_stream_sessions two_sessions = [session_a, session_b]"
    by (simp add: two_sessions_def)
  from init_protocol [of 7 "''repair''" "[1, 2]" two_sessions]
  show ?thesis unfolding s by simp
qed

subsection \<open>The listeners\<close>

text \<open>
  Claim C6, as the method has it. \<open>fireStreamEvent\<close> changes nothing of the
  object and calls \<open>handleStreamEvent\<close> once per entry of the listener list, in
  the order of the list, up to and including the first listener that throws.
  When no listener throws, that is every entry of the list, and the method
  returns normally.
\<close>

theorem fireStreamEvent_delivery:
  "this (snd (fireStreamEvent E event w)) = this w
   \<and> calls (snd (fireStreamEvent E event w)) =
       calls w @ map (\<lambda>l. HandleStreamEvent l event)
         (takeWhile (\<lambda>l. handleStreamEvent E l event) (event_listeners (this w))
          @ take 1 (dropWhile (\<lambda>l. handleStreamEvent E l event) (event_listeners (this w))))
   \<and> ((\<forall>l \<in> set (event_listeners (this w)). handleStreamEvent E l event) \<longrightarrow>
        fireStreamEvent E event w =
          (Inr (), w\<lparr>calls := calls w @
             map (\<lambda>l. HandleStreamEvent l event) (event_listeners (this w))\<rparr>))"
  by (simp add: fireStreamEvent_this fireStreamEvent_calls deliver_calls)
     (simp add: fireStreamEvent_def deliver_all_return)

theorem fireStreamEvent_delivery_witness:
  "handleStreamEvent listeners_return 1 (SessionCompleteEvent session_a)
   \<and> handleStreamEvent listeners_return 2 (SessionCompleteEvent session_a)
   \<and> fireStreamEvent listeners_return (SessionCompleteEvent session_a) two_listeners =
       (Inr (), two_listeners\<lparr>calls :=
          [HandleStreamEvent 1 (SessionCompleteEvent session_a),
           HandleStreamEvent 2 (SessionCompleteEvent session_a)]\<rparr>)"
proof -
  have l: "event_listeners (this two_listeners) = [1, 2]" "calls two_listeners = []"
    by (simp_all add: two_listeners_def world_of_def add_event_listener_def
          new_stream_result_future_def)
  have h: "handleStreamEvent listeners_return 1 (SessionCompleteEvent session_a)"
    "handleStreamEvent listeners_return 2 (SessionCompleteEvent session_a)"
    by (simp_all add: listeners_return_def)
  from fireStreamEvent_delivery
    [of listeners_return "SessionCompleteEvent session_a" two_listeners] h
  show ?thesis unfolding l by simp
qed

text \<open>
  C6 as it is worded says that every registered listener receives the event.
  With listeners 1 and 2 registered in this order and listener 1 throwing,
  listener 2 receives nothing.
\<close>

theorem fireStreamEvent_delivery_counterexample:
  "event_listeners (this two_listeners) = [1, 2]
   \<and> calls (snd (fireStreamEvent first_listener_throws
        (SessionCompleteEvent session_a) two_listeners)) =
       [HandleStreamEvent 1 (SessionCompleteEvent session_a)]
   \<and> HandleStreamEvent 2 (SessionCompleteEvent session_a) \<notin>
       set (calls (snd (fireStreamEvent first_listener_throws
        (SessionCompleteEvent session_a) two_listeners)))"
  by (simp add: example_defs method_defs)

text \<open>
  Claim C7, as the methods have it. A listener that throws is not isolated.
  \<open>fireStreamEvent\<close> hands the exception of the first throwing listener to its
  caller, having called the listeners before it and the thrower itself, and no
  listener after it; nothing is logged about the failure. In
  \<open>handleSessionComplete\<close> the exception leaves the method before
  \<open>addSessionInfo\<close> and \<open>maybeComplete\<close>, so the object is left as it was.
\<close>

theorem listener_failure_propagates:
  "event_listeners (this w) = before @ l # after \<Longrightarrow>
   \<forall>x \<in> set before. handleStreamEvent E x event \<Longrightarrow>
   \<not> handleStreamEvent E l event \<Longrightarrow>
     fireStreamEvent E event w =
       (Inl (ListenerFailure l event),
        w\<lparr>calls := calls w @ map (\<lambda>x. HandleStreamEvent x event) (before @ [l])\<rparr>)
     \<and> (event = SessionCompleteEvent session \<longrightarrow>
          fst (handleSessionComplete E session w) = Inl (ListenerFailure l event)
          \<and> this (snd (handleSessionComplete E session w)) = this w
          \<and> calls (snd (handleSessionComplete E session w)) =
              calls w @ [LoggerInfo ''[Stream #{}] Session with {} is complete'']
              @ map (\<lambda>x. HandleStreamEvent x event) (before @ [l]))"
proof -
  assume ls: "event_listeners (this w) = before @ l # after"
    and ok: "\<forall>x \<in> set before. handleStreamEvent E x event"
    and throws: "\<not> handleStreamEvent E l event"
  have fire: "fireStreamEvent E event v =
       (Inl (ListenerFailure l event),
        v\<lparr>calls := calls v @ map (\<lambda>x. HandleStreamEvent x event) (before @ [l])\<rparr>)"
    if "this v = this w" for v
    using that ls by (simp add: fireStreamEvent_def deliver_first_throw [OF ok throws])
  have complete: "handleSessionComplete E session w =
       (Inl (ListenerFailure l event),
        w\<lparr>calls := calls w @ [LoggerInfo ''[Stream #{}] Session with {} is complete'']
              @ map (\<lambda>x. HandleStreamEvent x event) (before @ [l])\<rparr>)"
    if "event = SessionCompleteEvent session"
    using fire [of "w\<lparr>calls := calls w @
        [LoggerInfo ''[Stream #{}] Session with {} is complete'']\<rparr>"] that
    by (simp add: handleSessionComplete_def Let_def)
  from fire [of w] complete show ?thesis by simp
qed

theorem listener_failure_propagates_witness:
  "event_listeners (this two_listeners) = [] @ 1 # [2]
   \<and> \<not> handleStreamEvent first_listener_throws 1 (SessionCompleteEvent session_a)
   \<and> fireStreamEvent first_listener_throws (SessionCompleteEvent session_a) two_listeners =
       (Inl (ListenerFailure 1 (SessionCompleteEvent session_a)),
        two_listeners\<lparr>calls := [HandleStreamEvent 1 (SessionCompleteEvent session_a)]\<rparr>)
   \<and> this (snd (handleSessionComplete first_listener_throws session_a two_listeners)) =
       this two_listeners"
proof -
  have l: "event_listeners (this two_listeners) = [] @ 1 # [2]" "calls two_listeners = []"
    by (simp_all add: two_listeners_def world_of_def add_event_listener_def
          new_stream_result_future_def)
  have h: "\<not> handleStreamEvent first_listener_throws 1 (SessionCompleteEvent session_a)"
    by (simp add: first_listener_throws_def)
  have b: "\<forall>x \<in> set []. handleStreamEvent first_listener_throws x (SessionCompleteEvent session_a)"
    by simp
  from listener_failure_propagates [OF l(1) b h, of session_a] l h
  show ?thesis by simp
qed

text \<open>
  C7 as it is worded fails: with listeners 1 and 2 and listener 1 throwing, the
  completion callback of the last session ends with the exception, listener 2
  receives nothing, the session's record is not added and the result stays
  pending, where the same call with listeners that return resolves the plan.
\<close>

theorem listener_failure_counterexample:
  "event_listeners (this two_listeners) = [1, 2]
   \<and> \<not> has_active_sessions (coordinator (this two_listeners))
   \<and> fst (handleSessionComplete first_listener_throws session_a two_listeners) =
       Inl (ListenerFailure 1 (SessionCompleteEvent session_a))
   \<and> HandleStreamEvent 2 (SessionCompleteEvent session_a) \<notin>
       set (calls (snd (handleSessionComplete first_listener_throws session_a two_listeners)))
   \<and> getAllSessionInfo (coordinator (this (snd
        (handleSessionComplete first_listener_throws session_a two_listeners)))) = []
   \<and> result (this (snd
        (handleSessionComplete first_listener_throws session_a two_listeners))) = Pending
   \<and> result (this (snd (handleSessionComplete listeners_return session_a two_listeners))) =
       Succeeded \<lparr>state_plan_id = 7, state_description = ''repair'',
                  sessions = [info_completed]\<rparr>"
  by (simp add: example_defs method_defs)

text \<open>
  Claim C10, as the methods have it. \<open>add_event_listener\<close> appends without
  looking for duplicates: each call makes the list one longer and keeps the
  earlier entries in their order, and adding the same listener twice leaves two
  more entries of it. An event fired afterwards is handed to the entries of the
  list in their order up to and including the first listener that throws. So the
  listener registered twice is called twice when it and the listeners before it
  return normally, and once when they return and it throws.
\<close>

theorem add_event_listener_twice:
  "event_listeners (add_event_listener l fut) = event_listeners fut @ [l]
   \<and> length (event_listeners (add_event_listener l fut)) = Suc (length (event_listeners fut))
   \<and> event_listeners (add_event_listener l (add_event_listener l fut)) =
       event_listeners fut @ [l, l]
   \<and> count_list (event_listeners (add_event_listener l (add_event_listener l fut))) l =
       count_list (event_listeners fut) l + 2
   \<and> calls (snd (fireStreamEvent E event
        \<lparr>this = add_event_listener l (add_event_listener l fut), calls = cs\<rparr>)) =
        cs @ map (\<lambda>x. HandleStreamEvent x event)
          (takeWhile (\<lambda>x. handleStreamEvent E x event) (event_listeners fut @ [l, l])
           @ take 1 (dropWhile (\<lambda>x. handleStreamEvent E x event) (event_listeners fut @ [l, l])))
   \<and> ((\<forall>x \<in> set (event_listeners fut). handleStreamEvent E x event)
        \<and> handleStreamEvent E l event \<longrightarrow>
      fireStreamEvent E event
        \<lparr>this = add_event_listener l (add_event_listener l fut), calls = cs\<rparr> =
        (Inr (), \<lparr>this = add_event_listener l (add_event_listener l fut),
           calls = cs @ map (\<lambda>x. HandleStreamEvent x event) (event_listeners fut)
             @ [HandleStreamEvent l event, HandleStreamEvent l event]\<rparr>))
   \<and> ((\<forall>x \<in> set (event_listeners fut). handleStreamEvent E x event)
        \<and> \<not> handleStreamEvent E l event \<longrightarrow>
      fireStreamEvent E event
        \<lparr>this = add_event_listener l (add_event_listener l fut), calls = cs\<rparr> =
        (Inl (ListenerFailure l event), \<lparr>this = add_event_listener l (add_event_listener l fut),
           calls = cs @ map (\<lambda>x. HandleStreamEvent x event) (event_listeners fut)
             @ [HandleStreamEvent l event]\<rparr>))"
proof -
  let ?fut2 = "add_event_listener l (add_event_listener l fut)"
  let ?w = "\<lparr>this = ?fut2, calls = cs\<rparr>"
  have ls: "event_listeners ?fut2 = event_listeners fut @ [l, l]"
    by (simp add: add_event_listener_def)
  have general: "calls (snd (fireStreamEvent E event ?w)) =
        cs @ map (\<lambda>x. HandleStreamEvent x event)
          (takeWhile (\<lambda>x. handleStreamEvent E x event) (event_listeners fut @ [l, l])
           @ take 1 (dropWhile (\<lambda>x. handleStreamEvent E x event) (event_listeners fut @ [l, l])))"
    unfolding fireStreamEvent_calls deliver_calls ls [symmetric] by simp
  have returns: "fireStreamEvent E event ?w =
        (Inr (), \<lparr>this = ?fut2,
           calls = cs @ map (\<lambda>x. HandleStreamEvent x event) (event_listeners fut)
             @ [HandleStreamEvent l event, HandleStreamEvent l event]\<rparr>)"
    if "\<forall>x \<in> set (event_listeners fut). handleStreamEvent E x event"
      and "handleStreamEvent E l event"
  proof -
    from that have "\<forall>x \<in> set (event_listeners fut @ [l, l]). handleStreamEvent E x event"
      by simp
    from deliver_all_return [OF this, of cs] show ?thesis
      by (simp add: fireStreamEvent_def ls)
  qed
  have throws: "fireStreamEvent E event ?w =
        (Inl (ListenerFailure l event), \<lparr>this = ?fut2,
           calls = cs @ map (\<lambda>x. HandleStreamEvent x event) (event_listeners fut)
             @ [HandleStreamEvent l event]\<rparr>)"
    if ok: "\<forall>x \<in> set (event_listeners fut). handleStreamEvent E x event"
      and l: "\<not> handleStreamEvent E l event"
    using deliver_first_throw [OF ok l, of "[l]" cs]
    by (simp add: fireStreamEvent_def ls)
  from general returns throws show ?thesis
    by (simp add: add_event_listener_def)
qed

theorem add_event_listener_twice_witness:
  "handleStreamEvent listeners_return 5 (ProgressEvent 7 progress_full)
   \<and> event_listeners (add_event_listener 5 (add_event_listener 5
        (new_stream_result_future 7 ''repair'' no_sessions))) = [5, 5]
   \<and> calls (snd (fireStreamEvent listeners_return (ProgressEvent 7 progress_full)
        \<lparr>this = add_event_listener 5 (add_event_listener 5
           (new_stream_result_future 7 ''repair'' no_sessions)), calls = []\<rparr>)) =
       [HandleStreamEvent 5 (ProgressEvent 7 progress_full),
        HandleStreamEvent 5 (ProgressEvent 7 progress_full)]"
proof -
  have e: "event_listeners (new_stream_result_future 7 ''repair'' no_sessions) = []"
    by (simp add: new_stream_result_future_def)
  have h: "handleStreamEvent listeners_return 5 (ProgressEvent 7 progress_full)"
    by (simp add: listeners_return_def)
  from add_event_listener_twice
    [of 5 "new_stream_result_future 7 ''repair'' no_sessions" listeners_return
        "ProgressEvent 7 progress_full" "[]"] h
  show ?thesis unfolding e by simp
qed

text \<open>
  C10 as it is worded says that a listener registered twice is handed each later
  event twice. With listener 1 registered twice and throwing, it is called
  once.
\<close>

theorem add_event_listener_twice_counterexample:
  "event_listeners (this registered_twice) = [1, 1]
   \<and> calls (snd (fireStreamEvent first_listener_throws
        (ProgressEvent 7 progress_full) registered_twice)) =
       [HandleStreamEvent 1 (ProgressEvent 7 progress_full)]
   \<and> count_list (calls (snd (fireStreamEvent first_listener_throws
        (ProgressEvent 7 progress_full) registered_twice)))
        (HandleStreamEvent 1 (ProgressEvent 7 progress_full)) = 1"
  by (simp add: example_defs method_defs)

end
